theory Spec2Isabelle
  imports Main "HOL-Library.Word"
begin

unbundle bit_operations_syntax

section \<open>AGS3870 driver: data model\<close>

type_synonym uint8_t = "8 word"
type_synonym uint16_t = "16 word"
type_synonym uint32_t = "32 word"

text \<open>Register addresses, the \<^verbatim>\<open>#define\<close>s at the head of AGS3870.cpp.\<close>

definition AGS3870_PPM :: uint8_t where
  "AGS3870_PPM = 0x00"

definition AGS3870_CALIBRATION :: uint8_t where
  "AGS3870_CALIBRATION = 0x01"

definition AGS3870_VERSION :: uint8_t where
  "AGS3870_VERSION = 0x11"

definition AGS3870_RESISTANCE :: uint8_t where
  "AGS3870_RESISTANCE = 0x20"

text \<open>
  The error codes \<^verbatim>\<open>AGS3870_OK\<close>, \<^verbatim>\<open>AGS3870_ERROR_CRC\<close>, \<^verbatim>\<open>AGS3870_ERROR_READ\<close> and
  \<^verbatim>\<open>AGS3870_ERROR_NOT_READY\<close> are macros of AGS3870.h, which is not among the sources.
  They are taken as a parameter: a record of the four values, as they read once stored in
  the member \<^verbatim>\<open>_error\<close>. Every operation that mentions a code takes the record.
\<close>

record error_codes =
  AGS3870_OK :: int
  AGS3870_ERROR_CRC :: int
  AGS3870_ERROR_READ :: int
  AGS3870_ERROR_NOT_READY :: int

text \<open>
  The two-wire bus object behind \<^verbatim>\<open>_wire\<close> is an external collaborator. Its transmit side
  is state: the address and the bytes queued since \<^verbatim>\<open>beginTransmission\<close>, and the
  transmissions closed so far, oldest first, each with its address and bytes.
\<close>

record TwoWire =
  txAddress :: uint8_t
  txBuffer :: "uint8_t list"
  transmitted :: "(uint8_t \<times> uint8_t list) list"

text \<open>
  What the bus answers during one register operation is an input of the model:
  the status code \<^verbatim>\<open>endTransmission\<close> returns (0 is success), the count
  \<^verbatim>\<open>requestFrom\<close> returns, and the byte that the i-th call of \<^verbatim>\<open>read\<close> after the
  request returns (i counted from 0).
\<close>

record bus_reply =
  endTransmission_rc :: uint8_t
  requestFrom_n :: nat
  read_byte :: "nat \<Rightarrow> uint8_t"

text \<open>
  The members of class AGS3870 (a member \<^verbatim>\<open>_x\<close> is the field \<open>x\<close>). The frame buffer
  \<^verbatim>\<open>uint8_t _buffer[5]\<close> is a list; the driver only ever indexes it with 0..4.
\<close>

record AGS3870 =
  address :: uint8_t
  startTime :: uint32_t
  lastRead :: uint32_t
  lastPPM :: uint32_t
  status :: uint8_t
  error :: int
  buffer :: "uint8_t list"
  wire :: TwoWire

text \<open>
  The caller's output records. Their declarations are in AGS3870.h; the fields are the ones
  the source assigns: \<^verbatim>\<open>data.status\<close>, \<^verbatim>\<open>data.value\<close> (16 bit each), and
  \<^verbatim>\<open>reg.data[0..3]\<close>, \<^verbatim>\<open>reg.crc\<close>, \<^verbatim>\<open>reg.crcValid\<close>.
\<close>

record ZeroCalibrationData =
  cal_status :: uint16_t
  cal_value :: uint16_t

record RegisterData =
  reg_data :: "uint8_t list"
  reg_crc :: uint8_t
  reg_crcValid :: bool

section \<open>The bus primitives\<close>

definition beginTransmission :: "uint8_t \<Rightarrow> TwoWire \<Rightarrow> TwoWire" where
  "beginTransmission a w = w\<lparr>txAddress := a, txBuffer := []\<rparr>"

definition wire_write :: "uint8_t \<Rightarrow> TwoWire \<Rightarrow> TwoWire" where
  "wire_write b w = w\<lparr>txBuffer := txBuffer w @ [b]\<rparr>"

definition endTransmission :: "bus_reply \<Rightarrow> TwoWire \<Rightarrow> uint8_t \<times> TwoWire" where
  "endTransmission r w =
     (endTransmission_rc r,
      w\<lparr>transmitted := transmitted w @ [(txAddress w, txBuffer w)]\<rparr>)"

section \<open>CRC-8\<close>

text \<open>
  One round of the inner loop of \<^verbatim>\<open>_CRC8\<close>. The C expression \<^verbatim>\<open>(crc << 1) ^ 0x31\<close> is
  computed in \<^verbatim>\<open>int\<close> and stored back into a \<^verbatim>\<open>uint8_t\<close>, which keeps the low 8 bits:
  the shift of an 8-bit word.
\<close>

definition crc_round :: "uint8_t \<Rightarrow> uint8_t" where
  "crc_round crc =
     (if crc AND 0x80 \<noteq> 0 then (push_bit 1 crc) XOR 0x31 else push_bit 1 crc)"

text \<open>The body of the outer loop for one byte: xor it in, then eight rounds.\<close>

definition crc_byte :: "uint8_t \<Rightarrow> uint8_t \<Rightarrow> uint8_t" where
  "crc_byte x crc = fold (\<lambda>i c. crc_round c) [0..<8] (crc XOR x)"

definition priv_CRC8 :: "uint8_t list \<Rightarrow> nat \<Rightarrow> uint8_t" where
  "priv_CRC8 buf sz = fold (\<lambda>b crc. crc_byte (buf ! b) crc) [0..<sz] 0xFF"

section \<open>Register transfer\<close>

definition priv_readRegister ::
  "error_codes \<Rightarrow> bus_reply \<Rightarrow> uint8_t \<Rightarrow> AGS3870 \<Rightarrow> bool \<times> AGS3870" where
  "priv_readRegister c r reg s =
     (let w1 = beginTransmission (address s) (wire s);
          w2 = wire_write reg w1;
          (rc, w3) = endTransmission r w2;
          s1 = s\<lparr>wire := w3, error := uint rc\<rparr>
      in if error s1 \<noteq> 0 then (False, s1)
         else if requestFrom_n r \<noteq> 5 then (False, s1\<lparr>error := AGS3870_ERROR_READ c\<rparr>)
         else
           let s2 = s1\<lparr>buffer := fold (\<lambda>i buf. buf[i := read_byte r i]) [0..<5] (buffer s1)\<rparr>
           in (True, s2\<lparr>error := AGS3870_OK c\<rparr>))"

definition priv_writeRegister ::
  "bus_reply \<Rightarrow> uint8_t \<Rightarrow> AGS3870 \<Rightarrow> bool \<times> AGS3870" where
  "priv_writeRegister r reg s =
     (let w1 = beginTransmission (address s) (wire s);
          w2 = wire_write reg w1;
          w3 = fold (\<lambda>i w. wire_write (buffer s ! i) w) [0..<5] w2;
          (rc, w4) = endTransmission r w3;
          s1 = s\<lparr>wire := w4, error := uint rc\<rparr>
      in (error s1 = 0, s1))"

definition priv_getDataMSB :: "AGS3870 \<Rightarrow> uint16_t" where
  "priv_getDataMSB s = push_bit 8 (ucast (buffer s ! 0)) + ucast (buffer s ! 1)"

definition priv_getDataLSB :: "AGS3870 \<Rightarrow> uint16_t" where
  "priv_getDataLSB s = push_bit 8 (ucast (buffer s ! 2)) + ucast (buffer s ! 3)"

section \<open>Decoders\<close>

text \<open>
  The width of the C type \<^verbatim>\<open>int\<close> depends on the target: 16 bits on the AVR boards,
  32 bits on the ARM and ESP boards. It is a parameter \<open>w\<close> of the decoders. The products
  \<^verbatim>\<open>_buffer[2] * 256\<close> (PPM) and \<^verbatim>\<open>_buffer[1] * 256\<close> (resistance) have both operands
  promoted to \<^verbatim>\<open>int\<close> and are computed in \<^verbatim>\<open>int\<close>. A product that does not fit is an
  overflow, undefined in C++; the compilers for the 16-bit targets keep the low \<open>w\<close> bits
  in two's complement, which is what \<open>int_mul\<close> writes out. The \<^verbatim>\<open>int\<close> is then converted
  to the unsigned 32-bit type of \<^verbatim>\<open>value\<close> for the addition: its value modulo 2^32, so a
  negative product is sign-extended. The product \<^verbatim>\<open>* 65536UL\<close> is unsigned long, 32 bits.
\<close>

definition int_mul :: "nat \<Rightarrow> int \<Rightarrow> int \<Rightarrow> int" where
  "int_mul w a b = signed_take_bit (w - 1) (a * b)"

definition priv_readSensor ::
  "error_codes \<Rightarrow> nat \<Rightarrow> bus_reply \<Rightarrow> AGS3870 \<Rightarrow> uint32_t \<times> AGS3870" where
  "priv_readSensor c w r s =
     (case priv_readRegister c r AGS3870_PPM s of
        (False, s1) \<Rightarrow> (0, s1)
      | (True, s1) \<Rightarrow>
          let s2 = s1\<lparr>error := AGS3870_OK c\<rparr>;
              s3 = s2\<lparr>status := buffer s2 ! 0\<rparr>;
              s4 = (if status s3 AND 0x01 \<noteq> 0
                    then s3\<lparr>error := AGS3870_ERROR_NOT_READY c\<rparr> else s3);
              v1 = ucast (buffer s4 ! 1) * 65536;
              v2 = v1 + word_of_int (int_mul w (uint (buffer s4 ! 2)) 256);
              v3 = v2 + ucast (buffer s4 ! 3);
              s5 = (if priv_CRC8 (buffer s4) 5 \<noteq> 0
                    then s4\<lparr>error := AGS3870_ERROR_CRC c\<rparr> else s4)
          in (v3, s5))"

text \<open>\<open>now\<close> is what \<^verbatim>\<open>millis()\<close> returns.\<close>

definition readPPM ::
  "error_codes \<Rightarrow> nat \<Rightarrow> bus_reply \<Rightarrow> uint32_t \<Rightarrow> AGS3870 \<Rightarrow> uint32_t \<times> AGS3870" where
  "readPPM c w r now s =
     (let (v, s1) = priv_readSensor c w r s
      in if error s1 = AGS3870_OK c
         then (v, s1\<lparr>lastRead := now, lastPPM := v\<rparr>)
         else (lastPPM s1, s1))"

definition readResistance ::
  "error_codes \<Rightarrow> nat \<Rightarrow> bus_reply \<Rightarrow> AGS3870 \<Rightarrow> uint32_t \<times> AGS3870" where
  "readResistance c w r s =
     (case priv_readRegister c r AGS3870_RESISTANCE s of
        (False, s1) \<Rightarrow> (0 * 10, s1)
      | (True, s1) \<Rightarrow>
          let v1 = ucast (buffer s1 ! 0) * 65536;
              v2 = v1 + word_of_int (int_mul w (uint (buffer s1 ! 1)) 256);
              v3 = v2 + ucast (buffer s1 ! 2);
              s2 = (if priv_CRC8 (buffer s1) 5 \<noteq> 0
                    then s1\<lparr>error := AGS3870_ERROR_CRC c\<rparr> else s1)
          in (v3 * 10, s2))"

definition manualZeroCalibration ::
  "bus_reply \<Rightarrow> uint16_t \<Rightarrow> AGS3870 \<Rightarrow> bool \<times> AGS3870" where
  "manualZeroCalibration r v s =
     (let s1 = s\<lparr>buffer := (buffer s)[0 := 0x00]\<rparr>;
          s2 = s1\<lparr>buffer := (buffer s1)[1 := 0x00]\<rparr>;
          s3 = s2\<lparr>buffer := (buffer s2)[2 := ucast (drop_bit 8 v)]\<rparr>;
          s4 = s3\<lparr>buffer := (buffer s3)[3 := ucast (v AND 0x00FF)]\<rparr>;
          s5 = s4\<lparr>buffer := (buffer s4)[4 := priv_CRC8 (buffer s4) 4]\<rparr>
      in priv_writeRegister r AGS3870_CALIBRATION s5)"

text \<open>
  The reference parameter \<^verbatim>\<open>data\<close> is passed in and returned: the second component of
  the result is the caller's record after the call.
\<close>

definition getZeroCalibrationData ::
  "error_codes \<Rightarrow> bus_reply \<Rightarrow> ZeroCalibrationData \<Rightarrow> AGS3870
     \<Rightarrow> bool \<times> ZeroCalibrationData \<times> AGS3870" where
  "getZeroCalibrationData c r data s =
     (case priv_readRegister c r AGS3870_CALIBRATION s of
        (False, s1) \<Rightarrow> (False, data, s1)
      | (True, s1) \<Rightarrow>
          if priv_CRC8 (buffer s1) 5 \<noteq> 0
          then (False, data, s1\<lparr>error := AGS3870_ERROR_CRC c\<rparr>)
          else
            let s2 = s1\<lparr>error := AGS3870_OK c\<rparr>;
                d1 = data\<lparr>cal_status := priv_getDataMSB s2\<rparr>;
                d2 = d1\<lparr>cal_value := priv_getDataLSB s2\<rparr>
            in (True, d2, s2))"

definition lastError :: "error_codes \<Rightarrow> AGS3870 \<Rightarrow> int \<times> AGS3870" where
  "lastError c s = (let e = error s in (e, s\<lparr>error := AGS3870_OK c\<rparr>))"

definition readRegister ::
  "error_codes \<Rightarrow> bus_reply \<Rightarrow> uint8_t \<Rightarrow> RegisterData \<Rightarrow> AGS3870
     \<Rightarrow> bool \<times> RegisterData \<times> AGS3870" where
  "readRegister c r a reg s =
     (case priv_readRegister c r a s of
        (False, s1) \<Rightarrow> (False, reg, s1)
      | (True, s1) \<Rightarrow>
          if priv_CRC8 (buffer s1) 5 \<noteq> 0
          then (False, reg, s1\<lparr>error := AGS3870_ERROR_CRC c\<rparr>)
          else
            let s2 = s1\<lparr>error := AGS3870_OK c\<rparr>;
                g0 = reg\<lparr>reg_data := (reg_data reg)[0 := buffer s2 ! 0]\<rparr>;
                g1 = g0\<lparr>reg_data := (reg_data g0)[1 := buffer s2 ! 1]\<rparr>;
                g2 = g1\<lparr>reg_data := (reg_data g1)[2 := buffer s2 ! 2]\<rparr>;
                g3 = g2\<lparr>reg_data := (reg_data g2)[3 := buffer s2 ! 3]\<rparr>;
                g4 = g3\<lparr>reg_crc := buffer s2 ! 4\<rparr>;
                g5 = g4\<lparr>reg_crcValid := True\<rparr>
            in (True, g5, s2))"

section \<open>Concrete inputs\<close>

text \<open>
  Modelled from the spec: the error macros are defined in AGS3870.h, which is not among the
  sources. The spec lists OK, read-error, CRC-mismatch and sensor-not-ready as different
  values of one scalar error slot, and 0 as the transport's success code. This sample takes
  OK = 0 and three distinct negative numbers for the errors; it is used in the concrete
  evaluations only, the general theorems take the codes as a parameter.
\<close>

definition ex_codes :: error_codes where
  "ex_codes = \<lparr>AGS3870_OK = 0, AGS3870_ERROR_CRC = -11, AGS3870_ERROR_READ = -12,
     AGS3870_ERROR_NOT_READY = -13\<rparr>"

text \<open>A driver as \<^verbatim>\<open>reset()\<close> leaves it, on a bus that has not transmitted yet.\<close>

definition ex_state :: AGS3870 where
  "ex_state = \<lparr>address = 26, startTime = 0, lastRead = 0, lastPPM = 0, status = 0,
     error = 0, buffer = [0, 0, 0, 0, 0],
     wire = \<lparr>txAddress = 0, txBuffer = [], transmitted = []\<rparr>\<rparr>"

text \<open>The bus acknowledges the address write and delivers the bytes \<open>bs\<close>.\<close>

definition reply_frame :: "uint8_t list \<Rightarrow> bus_reply" where
  "reply_frame bs = \<lparr>endTransmission_rc = 0, requestFrom_n = length bs,
     read_byte = (\<lambda>i. bs ! i)\<rparr>"

text \<open>The bus answers the address write with status code \<open>rc\<close>; no data follows.\<close>

definition reply_status :: "uint8_t \<Rightarrow> bus_reply" where
  "reply_status rc = \<lparr>endTransmission_rc = rc, requestFrom_n = 0, read_byte = (\<lambda>i. 0)\<rparr>"

text \<open>The five bytes the first five calls of \<^verbatim>\<open>read\<close> deliver, in order.\<close>

definition rx_frame :: "bus_reply \<Rightarrow> uint8_t list" where
  "rx_frame r = map (read_byte r) [0..<5]"

text \<open>
  The bus object after the address write of a register read: the transmission of the one
  byte \<open>reg\<close> to the driver's address has been closed.
\<close>

definition wire_after_read :: "uint8_t \<Rightarrow> AGS3870 \<Rightarrow> TwoWire" where
  "wire_after_read reg s =
     (wire s)\<lparr>txAddress := address s, txBuffer := [reg],
       transmitted := transmitted (wire s) @ [(address s, [reg])]\<rparr>"

text \<open>Sample frames: a PPM frame of value 5 with its CRC byte, and the same with CRC byte 0.\<close>

definition ex_good :: bus_reply where
  "ex_good = reply_frame [0, 0, 0, 5, 0x22]"

definition ex_bad_crc :: bus_reply where
  "ex_bad_crc = reply_frame [0, 0, 0, 5, 0]"

text \<open>
  Well-formed frames (the fifth byte is the CRC-8 of the first four) with a byte of 0x80
  in the middle position: a PPM frame of value 32768 and a resistance frame of raw
  reading 32768.
\<close>

definition ex_ppm_high :: bus_reply where
  "ex_ppm_high = reply_frame [0x00, 0x00, 0x80, 0x00, 0xF4]"

definition ex_res_high :: bus_reply where
  "ex_res_high = reply_frame [0x00, 0x80, 0x00, 0x00, 0x02]"

text \<open>A well-formed resistance frame whose raw reading is 0.\<close>

definition zero_resistance_reply :: bus_reply where
  "zero_resistance_reply = reply_frame [0, 0, 0, 0, priv_CRC8 [0, 0, 0, 0] 4]"

text \<open>Output records as a caller might hold them before the call.\<close>

definition ex_reg :: RegisterData where
  "ex_reg = \<lparr>reg_data = [9, 9, 9, 9], reg_crc = 9, reg_crcValid = False\<rparr>"

definition ex_cal :: ZeroCalibrationData where
  "ex_cal = \<lparr>cal_status = 9, cal_value = 9\<rparr>"

section \<open>Arithmetic of bytes and words\<close>

lemma u8_bound: "unat (b :: 8 word) < 256"
  using unsigned_less [of b, where 'a = nat] by simp

lemma unat_ucast_8_32: "unat (ucast (b :: 8 word) :: 32 word) = unat b"
  using u8_bound [of b] by (simp add: unsigned_ucast_eq take_bit_nat_eq_self)

lemma unat_ucast_8_16: "unat (ucast (b :: 8 word) :: 16 word) = unat b"
  using u8_bound [of b] by (simp add: unsigned_ucast_eq take_bit_nat_eq_self)

lemma be24:
  "unat (ucast b1 * 65536 + ucast b2 * 256 + ucast b3 :: 32 word)
     = unat (b1 :: 8 word) * 65536 + unat (b2 :: 8 word) * 256 + unat (b3 :: 8 word)"
  using u8_bound [of b1] u8_bound [of b2] u8_bound [of b3]
  by (simp add: unat_word_ariths unat_ucast_8_32)

lemma be24_times10:
  "unat ((ucast b1 * 65536 + ucast b2 * 256 + ucast b3) * 10 :: 32 word)
     = (unat (b1 :: 8 word) * 65536 + unat (b2 :: 8 word) * 256 + unat (b3 :: 8 word)) * 10"
proof -
  have "unat ((ucast b1 * 65536 + ucast b2 * 256 + ucast b3) * 10 :: 32 word)
      = (unat (ucast b1 * 65536 + ucast b2 * 256 + ucast b3 :: 32 word) * 10) mod 2 ^ 32"
    by (simp only: unat_word_ariths(2)) simp
  also have "\<dots> = ((unat b1 * 65536 + unat b2 * 256 + unat b3) * 10) mod 2 ^ 32"
    by (simp only: be24)
  also have "\<dots> = (unat b1 * 65536 + unat b2 * 256 + unat b3) * 10"
    using u8_bound [of b1] u8_bound [of b2] u8_bound [of b3] by simp
  finally show ?thesis .
qed

lemma be16:
  "unat (push_bit 8 (ucast b0) + ucast b1 :: 16 word)
     = unat (b0 :: 8 word) * 256 + unat (b1 :: 8 word)"
  using u8_bound [of b0] u8_bound [of b1]
  by (simp add: unat_word_ariths unat_ucast_8_16 push_bit_eq_mult)

lemma hi_byte: "unat (ucast (drop_bit 8 (v :: 16 word)) :: 8 word) = unat v div 256"
proof -
  have "unat v < 65536" using unsigned_less [of v, where 'a = nat] by simp
  then have small: "unat v div 256 < 2 ^ 8" by simp
  have "unat (drop_bit 8 v) = drop_bit 8 (unat v)"
    by (rule unat_drop_bit_eq)
  also have "\<dots> = unat v div 256"
    by (simp only: drop_bit_eq_div) simp
  finally have d: "unat (drop_bit 8 v) = unat v div 256" .
  have "unat (ucast (drop_bit 8 v) :: 8 word) = take_bit 8 (unat (drop_bit 8 v))"
    by (simp only: unsigned_ucast_eq) simp
  also have "\<dots> = unat v div 256"
    using small by (simp only: d take_bit_nat_eq_self)
  finally show ?thesis .
qed

lemma lo_byte: "unat (ucast ((v :: 16 word) AND 0x00FF) :: 8 word) = unat v mod 256"
proof -
  have "(v AND 0x00FF) = take_bit 8 v"
    using take_bit_eq_mask [of 8 v] by (simp add: mask_eq_exp_minus_1)
  then show ?thesis
    by (simp add: unsigned_ucast_eq unat_mod_distrib take_bit_eq_mod)
qed

text \<open>
  The product of a byte and 256 in an \<^verbatim>\<open>int\<close> of \<open>w\<close> bits: exact when \<open>w\<close> is more than
  16, or when the byte is below 0x80 and \<open>w\<close> is 16; in a 16-bit \<^verbatim>\<open>int\<close> the byte 0x80
  gives -32768, which reads 0xFFFF8000 once converted to 32 bits unsigned.
\<close>

lemma int_mul_0: "int_mul w 0 b = 0"
  by (simp add: int_mul_def)

lemma int_mul_byte:
  assumes "17 \<le> w \<or> (16 \<le> w \<and> uint b < 128)"
  shows "int_mul w (uint (b :: 8 word)) 256 = uint b * 256"
proof -
  have b: "0 \<le> uint b" "uint b < 256"
    using unsigned_less [of b, where 'a = int] by simp_all
  have "uint b * 256 < 2 ^ (w - 1)"
  proof (cases "17 \<le> w")
    case True
    then have "(2::int) ^ 16 \<le> 2 ^ (w - 1)"
      by (intro power_increasing) simp_all
    with b show ?thesis by simp
  next
    case False
    with assms have "16 \<le> w" "uint b < 128" by simp_all
    then have "(2::int) ^ 15 \<le> 2 ^ (w - 1)"
      by (intro power_increasing) simp_all
    with \<open>uint b < 128\<close> show ?thesis by simp
  qed
  moreover have "- (2 ^ (w - 1)) \<le> uint b * 256"
  proof -
    have "- (2 ^ (w - 1)) \<le> (0::int)" by simp
    also have "0 \<le> uint b * 256" using b by simp
    finally show ?thesis .
  qed
  ultimately show ?thesis
    by (simp add: int_mul_def signed_take_bit_int_eq_self)
qed

lemma word_of_int_byte_mul:
  "(word_of_int (uint (b :: 8 word) * 256) :: 32 word) = ucast b * 256"
  by simp

lemma int_mul_16_high: "int_mul 16 128 256 = - 32768"
  by code_simp

section \<open>The CRC loop\<close>

lemma crc_round_0: "crc_round 0 = 0"
  by (simp add: crc_round_def)

lemma fold_crc_round_0: "fold (\<lambda>i c. crc_round c) xs 0 = 0"
  by (induction xs) (simp_all add: crc_round_0)

lemma crc_byte_self: "crc_byte x x = 0"
  by (simp add: crc_byte_def fold_crc_round_0)

lemma priv_CRC8_Suc: "priv_CRC8 buf (Suc n) = crc_byte (buf ! n) (priv_CRC8 buf n)"
  by (simp add: priv_CRC8_def)

lemma priv_CRC8_append: "n \<le> length xs \<Longrightarrow> priv_CRC8 (xs @ ys) n = priv_CRC8 xs n"
  by (induction n) (simp_all add: priv_CRC8_Suc nth_append, simp add: priv_CRC8_def)

lemma priv_CRC8_5_4: "priv_CRC8 [a, b, c, d, e] 4 = priv_CRC8 [a, b, c, d] 4"
  using priv_CRC8_append [of 4 "[a, b, c, d]" "[e]"] by simp

lemma ex_bad_crc_fails: "priv_CRC8 [0, 0, 0, 5, 0] 5 \<noteq> 0"
  by code_simp

lemma ex_good_passes: "priv_CRC8 [0, 0, 0, 5, 0x22] 5 = 0"
  by code_simp

lemma ex_not_ready_passes: "priv_CRC8 [1, 0, 0, 5, 0xB9] 5 = 0"
  by code_simp

lemma ex_not_ready_bad_crc: "priv_CRC8 [1, 0, 0, 5, 0] 5 \<noteq> 0"
  by code_simp

lemma ex_ppm_high_passes: "priv_CRC8 [0x00, 0x00, 0x80, 0x00, 0xF4] 5 = 0"
  by code_simp

lemma ex_res_high_passes: "priv_CRC8 [0x00, 0x80, 0x00, 0x00, 0x02] 5 = 0"
  by code_simp

lemma crc_1234: "priv_CRC8 [0x00, 0x00, 0x12, 0x34] 4 = 0x61"
  by code_simp

text \<open>
  C3. CRC-8 round trip: for every 4-byte payload \<open>b0 b1 b2 b3\<close>, appending the CRC-8
  computed over the four bytes as a fifth byte and running \<^verbatim>\<open>_CRC8\<close> over all five bytes
  gives 0.
\<close>

theorem crc8_round_trip:
  "priv_CRC8 [b0, b1, b2, b3, priv_CRC8 [b0, b1, b2, b3] 4] 5 = 0"
proof -
  let ?p = "[b0, b1, b2, b3]"
  let ?f = "?p @ [priv_CRC8 ?p 4]"
  have "priv_CRC8 ?f 5 = crc_byte (priv_CRC8 ?p 4) (priv_CRC8 ?f 4)"
    using priv_CRC8_Suc [of ?f 4] by simp
  also have "priv_CRC8 ?f 4 = priv_CRC8 ?p 4"
    by (rule priv_CRC8_append) simp
  finally show ?thesis by (simp add: crc_byte_self)
qed

text \<open>
  C6. \<^verbatim>\<open>lastError()\<close> returns the current error value and leaves the error slot at OK;
  a second call right after the first returns OK.
\<close>

theorem lastError_consumes:
  "lastError c s = (error s, s\<lparr>error := AGS3870_OK c\<rparr>)
   \<and> fst (lastError c (snd (lastError c s))) = AGS3870_OK c"
  by (simp add: lastError_def)

section \<open>Register read\<close>

lemma fill5:
  "length buf = 5 \<Longrightarrow> fold (\<lambda>i b. b[i := f i]) [0..<5] buf = map f [0..<5]"
  by (auto simp: length_Suc_conv eval_nat_numeral upt_rec)

lemma update4:
  "length xs = 4 \<Longrightarrow> xs[0 := a, Suc 0 := b, 2 := c, 3 := d] = [a, b, c, d]"
  by (auto simp: length_Suc_conv eval_nat_numeral)

lemma rx_frame_eq:
  "rx_frame r = [read_byte r 0, read_byte r 1, read_byte r 2, read_byte r 3, read_byte r 4]"
  by (simp add: rx_frame_def upt_rec eval_nat_numeral)

lemma rx_frame_nth:
  "rx_frame r ! 0 = read_byte r 0" "rx_frame r ! 1 = read_byte r 1"
  "rx_frame r ! 2 = read_byte r 2" "rx_frame r ! 3 = read_byte r 3"
  "rx_frame r ! 4 = read_byte r 4" "rx_frame r ! Suc 0 = read_byte r 1"
  by (simp_all add: rx_frame_eq)

lemma reply_frame_simps:
  "endTransmission_rc (reply_frame bs) = 0"
  "requestFrom_n (reply_frame bs) = length bs"
  "read_byte (reply_frame bs) i = bs ! i"
  "rx_frame (reply_frame [a, b, c, d, e]) = [a, b, c, d, e]"
  by (simp_all add: reply_frame_def rx_frame_eq)

lemma ex_state_wf: "length (buffer ex_state) = 5"
  by (simp add: ex_state_def)

lemma ex_bad_crc_io:
  "endTransmission_rc ex_bad_crc = 0" "requestFrom_n ex_bad_crc = 5"
  by (simp_all add: ex_bad_crc_def reply_frame_simps)

lemma ex_good_io:
  "endTransmission_rc ex_good = 0" "requestFrom_n ex_good = 5"
  by (simp_all add: ex_good_def reply_frame_simps)

text \<open>The three outcomes of \<^verbatim>\<open>_readRegister\<close> on a driver whose buffer has its 5 cells.\<close>

lemma priv_readRegister_eq:
  assumes "length (buffer s) = 5"
  shows "priv_readRegister c r reg s =
    (if endTransmission_rc r \<noteq> 0
     then (False, s\<lparr>error := uint (endTransmission_rc r), wire := wire_after_read reg s\<rparr>)
     else if requestFrom_n r \<noteq> 5
     then (False, s\<lparr>error := AGS3870_ERROR_READ c, wire := wire_after_read reg s\<rparr>)
     else (True, s\<lparr>error := AGS3870_OK c, buffer := rx_frame r,
                    wire := wire_after_read reg s\<rparr>))"
  using assms
  by (simp add: priv_readRegister_def beginTransmission_def wire_write_def endTransmission_def
      wire_after_read_def rx_frame_def fill5 Let_def uint_0_iff)

lemma priv_readRegister_fail:
  assumes "endTransmission_rc r \<noteq> 0 \<or> requestFrom_n r \<noteq> 5"
  shows "priv_readRegister c r reg s =
    (False, s\<lparr>error := (if endTransmission_rc r \<noteq> 0 then uint (endTransmission_rc r)
                          else AGS3870_ERROR_READ c),
               wire := wire_after_read reg s\<rparr>)"
  using assms
  by (auto simp: priv_readRegister_def beginTransmission_def wire_write_def endTransmission_def
      wire_after_read_def Let_def uint_0_iff)

lemma priv_readRegister_cache:
  "lastPPM (snd (priv_readRegister c r reg s)) = lastPPM s
   \<and> lastRead (snd (priv_readRegister c r reg s)) = lastRead s"
  by (simp add: priv_readRegister_def endTransmission_def Let_def)

text \<open>
  C7. Low-level register read. The read succeeds exactly when closing the address write
  returns 0 and the request reports 5 bytes. When the close fails, the transport's status
  code is the recorded error and the buffer is as before; otherwise, when the request does
  not report 5 bytes (a request for 5 reports at most 5, so: fewer), the recorded error is
  the read error and the buffer is as before; otherwise the buffer holds the 5 received
  bytes in order and the error is OK.
\<close>

theorem priv_readRegister_cases:
  assumes "length (buffer s) = 5"
  shows "fst (priv_readRegister c r reg s)
           = (endTransmission_rc r = 0 \<and> requestFrom_n r = 5)
       \<and> error (snd (priv_readRegister c r reg s))
           = (if endTransmission_rc r \<noteq> 0 then uint (endTransmission_rc r)
              else if requestFrom_n r \<noteq> 5 then AGS3870_ERROR_READ c
              else AGS3870_OK c)
       \<and> buffer (snd (priv_readRegister c r reg s))
           = (if endTransmission_rc r = 0 \<and> requestFrom_n r = 5
              then [read_byte r 0, read_byte r 1, read_byte r 2, read_byte r 3, read_byte r 4]
              else buffer s)"
  using assms by (simp add: priv_readRegister_eq rx_frame_eq)

theorem priv_readRegister_cases_witness:
  "length (buffer ex_state) = 5
   \<and> fst (priv_readRegister ex_codes (reply_frame [1, 2, 3, 4, 5]) AGS3870_VERSION ex_state)
   \<and> buffer (snd (priv_readRegister ex_codes (reply_frame [1, 2, 3, 4, 5])
         AGS3870_VERSION ex_state)) = [1, 2, 3, 4, 5]
   \<and> error (snd (priv_readRegister ex_codes (reply_frame [1, 2, 3, 4, 5])
         AGS3870_VERSION ex_state)) = 0"
proof -
  have h: "length (buffer ex_state) = 5" by (simp add: ex_state_def)
  show ?thesis
    using h priv_readRegister_cases [OF h, where r = "reply_frame [1, 2, 3, 4, 5]"
        and c = ex_codes and reg = AGS3870_VERSION]
    by (simp add: reply_frame_def ex_codes_def)
qed

section \<open>PPM\<close>

lemma priv_readSensor_cache:
  "lastPPM (snd (priv_readSensor c w r s)) = lastPPM s
   \<and> lastRead (snd (priv_readSensor c w r s)) = lastRead s"
proof (cases "priv_readRegister c r AGS3870_PPM s")
  case (Pair ok s1)
  with priv_readRegister_cache [of c r AGS3870_PPM s]
  have "lastPPM s1 = lastPPM s" "lastRead s1 = lastRead s" by simp_all
  with Pair show ?thesis
    by (cases ok) (simp_all add: priv_readSensor_def Let_def)
qed

lemma priv_readSensor_eq:
  assumes "length (buffer s) = 5" "endTransmission_rc r = 0" "requestFrom_n r = 5"
  shows "priv_readSensor c w r s =
    (ucast (read_byte r 1) * 65536 + word_of_int (int_mul w (uint (read_byte r 2)) 256)
       + ucast (read_byte r 3),
     s\<lparr>status := read_byte r 0,
        error := (if priv_CRC8 (rx_frame r) 5 \<noteq> 0 then AGS3870_ERROR_CRC c
                  else if read_byte r 0 AND 0x01 \<noteq> 0 then AGS3870_ERROR_NOT_READY c
                  else AGS3870_OK c),
        buffer := rx_frame r, wire := wire_after_read AGS3870_PPM s\<rparr>)"
  using assms
  by (simp add: priv_readSensor_def priv_readRegister_eq Let_def rx_frame_nth)

text \<open>
  The error state and the status byte after the decode of a received frame, for an
  \<^verbatim>\<open>int\<close> of any width: the CRC error when the CRC over the 5 bytes is not 0 (also when
  bit 0 of the status byte is set), else not-ready when bit 0 of the status byte is set,
  else OK.
\<close>

lemma priv_readSensor_error:
  assumes "length (buffer s) = 5" "endTransmission_rc r = 0" "requestFrom_n r = 5"
  shows "status (snd (priv_readSensor c w r s)) = read_byte r 0
       \<and> error (snd (priv_readSensor c w r s))
           = (if priv_CRC8 (rx_frame r) 5 \<noteq> 0 then AGS3870_ERROR_CRC c
              else if read_byte r 0 AND 0x01 \<noteq> 0 then AGS3870_ERROR_NOT_READY c
              else AGS3870_OK c)"
  by (simp add: priv_readSensor_eq [OF assms])

text \<open>
  The decoded value of a received frame is byte[1]*65536 + byte[2]*256 + byte[3] when the
  product byte[2]*256 fits the \<^verbatim>\<open>int\<close>: on a target whose \<^verbatim>\<open>int\<close> has more than 16 bits,
  or for byte[2] below 0x80.
\<close>

lemma priv_readSensor_value:
  assumes "length (buffer s) = 5" "endTransmission_rc r = 0" "requestFrom_n r = 5"
    and "17 \<le> w \<or> (16 \<le> w \<and> uint (read_byte r 2) < 128)"
  shows "unat (fst (priv_readSensor c w r s))
           = unat (read_byte r 1) * 65536 + unat (read_byte r 2) * 256 + unat (read_byte r 3)"
  by (simp only: priv_readSensor_eq [OF assms(1-3)] fst_conv int_mul_byte [OF assms(4)]
      word_of_int_byte_mul be24)

text \<open>
  Status bit 0 set and a valid CRC: not-ready, value 5. Status bit 0 set and a failing
  CRC: the CRC error, value 5. The bytes are below 0x80, so this is so on every target.
\<close>

lemma priv_readSensor_not_ready_example:
  "unat (fst (priv_readSensor ex_codes 16 (reply_frame [1, 0, 0, 5, 0xB9]) ex_state)) = 5
   \<and> status (snd (priv_readSensor ex_codes 16 (reply_frame [1, 0, 0, 5, 0xB9]) ex_state)) = 1
   \<and> error (snd (priv_readSensor ex_codes 16 (reply_frame [1, 0, 0, 5, 0xB9]) ex_state))
       = AGS3870_ERROR_NOT_READY ex_codes
   \<and> unat (fst (priv_readSensor ex_codes 16 (reply_frame [1, 0, 0, 5, 0]) ex_state)) = 5
   \<and> error (snd (priv_readSensor ex_codes 16 (reply_frame [1, 0, 0, 5, 0]) ex_state))
       = AGS3870_ERROR_CRC ex_codes"
proof -
  have g1: "endTransmission_rc (reply_frame [1, 0, 0, 5, 0xB9]) = 0"
    and g2: "requestFrom_n (reply_frame [1, 0, 0, 5, 0xB9]) = 5"
    and g3: "17 \<le> (16::nat) \<or> (16 \<le> (16::nat)
               \<and> uint (read_byte (reply_frame [1, 0, 0, 5, 0xB9]) 2) < 128)"
    and h1: "endTransmission_rc (reply_frame [1, 0, 0, 5, 0]) = 0"
    and h2: "requestFrom_n (reply_frame [1, 0, 0, 5, 0]) = 5"
    and h3: "17 \<le> (16::nat) \<or> (16 \<le> (16::nat)
               \<and> uint (read_byte (reply_frame [1, 0, 0, 5, 0]) 2) < 128)"
    by (simp_all add: reply_frame_simps)
  show ?thesis
    using priv_readSensor_value [OF ex_state_wf g1 g2 g3, where c = ex_codes]
      priv_readSensor_error [OF ex_state_wf g1 g2, where c = ex_codes and w = 16]
      priv_readSensor_value [OF ex_state_wf h1 h2 h3, where c = ex_codes]
      priv_readSensor_error [OF ex_state_wf h1 h2, where c = ex_codes and w = 16]
    by (simp add: reply_frame_simps ex_not_ready_passes ex_not_ready_bad_crc)
qed

lemma ex_ppm_high_io:
  "endTransmission_rc ex_ppm_high = 0" "requestFrom_n ex_ppm_high = 5"
  by (simp_all add: ex_ppm_high_def reply_frame_simps)

text \<open>
  C5. PPM decode, on a target whose \<^verbatim>\<open>int\<close> has 16 bits. The frame 00 00 80 00 F4 is
  received (close status 0, 5 bytes) with a valid CRC and a clear status bit, and
  byte[1]*65536 + byte[2]*256 + byte[3] is 32768. The decode step returns 4294934528
  (0xFFFF8000) with error OK: the product \<^verbatim>\<open>_buffer[2] * 256\<close> of line 180 overflows the
  \<^verbatim>\<open>int\<close>, unlike the product \<^verbatim>\<open>_buffer[1] * 65536UL\<close> of the line before it.
\<close>

theorem priv_readSensor_int16_overflow:
  "endTransmission_rc ex_ppm_high = 0 \<and> requestFrom_n ex_ppm_high = 5
   \<and> priv_CRC8 (rx_frame ex_ppm_high) 5 = 0
   \<and> unat (read_byte ex_ppm_high 1) * 65536 + unat (read_byte ex_ppm_high 2) * 256
       + unat (read_byte ex_ppm_high 3) = 32768
   \<and> unat (fst (priv_readSensor ex_codes 16 ex_ppm_high ex_state)) = 4294934528
   \<and> error (snd (priv_readSensor ex_codes 16 ex_ppm_high ex_state)) = AGS3870_OK ex_codes"
proof -
  have bytes: "read_byte ex_ppm_high 0 = 0" "read_byte ex_ppm_high 1 = 0"
    "read_byte ex_ppm_high 2 = 0x80" "read_byte ex_ppm_high 3 = 0"
    "read_byte ex_ppm_high (Suc 0) = 0"
    by (simp_all add: ex_ppm_high_def reply_frame_simps)
  have crc: "priv_CRC8 (rx_frame ex_ppm_high) 5 = 0"
    by (simp add: ex_ppm_high_def reply_frame_simps ex_ppm_high_passes)
  have v: "fst (priv_readSensor ex_codes 16 ex_ppm_high ex_state) = 0xFFFF8000"
    by (simp add: priv_readSensor_eq [OF ex_state_wf ex_ppm_high_io] bytes int_mul_16_high)
  have e: "error (snd (priv_readSensor ex_codes 16 ex_ppm_high ex_state)) = AGS3870_OK ex_codes"
    by (simp add: priv_readSensor_eq [OF ex_state_wf ex_ppm_high_io] bytes crc)
  show ?thesis
    by (simp add: ex_ppm_high_io crc v e) (simp add: bytes)
qed

text \<open>
  C1. \<^verbatim>\<open>readPPM()\<close>. When the decode step leaves the error state OK, the decoded value is
  returned and the cache and its timestamp become that value and the current time. When
  it leaves any other error state, the value cached before the call is returned; the
  decode step itself never touches the cache or the timestamp, so both are as before.
\<close>

theorem readPPM_policy:
  "readPPM c w r now s =
     (if error (snd (priv_readSensor c w r s)) = AGS3870_OK c
      then (fst (priv_readSensor c w r s),
            (snd (priv_readSensor c w r s))\<lparr>lastRead := now,
               lastPPM := fst (priv_readSensor c w r s)\<rparr>)
      else (lastPPM s, snd (priv_readSensor c w r s)))
   \<and> lastPPM (snd (priv_readSensor c w r s)) = lastPPM s
   \<and> lastRead (snd (priv_readSensor c w r s)) = lastRead s"
  using priv_readSensor_cache [of c w r s]
  by (cases "priv_readSensor c w r s") (simp add: readPPM_def)

text \<open>
  C2, as stated, fails: with I/O success and a ready sensor, a frame whose CRC check fails
  decodes to 5, and the cache keeps its old value 0.
\<close>

theorem readPPM_crc_failure_counterexample:
  "endTransmission_rc ex_bad_crc = 0 \<and> requestFrom_n ex_bad_crc = 5
   \<and> read_byte ex_bad_crc 0 AND 0x01 = 0
   \<and> priv_CRC8 (rx_frame ex_bad_crc) 5 \<noteq> 0
   \<and> fst (priv_readSensor ex_codes 16 ex_bad_crc ex_state) = 5
   \<and> lastPPM (snd (readPPM ex_codes 16 ex_bad_crc 1000 ex_state)) = 0
   \<and> lastPPM (snd (readPPM ex_codes 16 ex_bad_crc 1000 ex_state))
       \<noteq> fst (priv_readSensor ex_codes 16 ex_bad_crc ex_state)"
proof -
  have d: "priv_readSensor ex_codes 16 ex_bad_crc ex_state =
      (5, ex_state\<lparr>status := 0, error := AGS3870_ERROR_CRC ex_codes,
            buffer := [0, 0, 0, 5, 0], wire := wire_after_read AGS3870_PPM ex_state\<rparr>)"
    by (simp add: priv_readSensor_eq [OF ex_state_wf ex_bad_crc_io])
      (simp add: ex_bad_crc_def reply_frame_simps ex_bad_crc_fails int_mul_0)
  have p: "lastPPM (snd (readPPM ex_codes 16 ex_bad_crc 1000 ex_state)) = 0"
    by (simp add: readPPM_def d) (simp add: ex_codes_def ex_state_def)
  show ?thesis
    by (simp add: ex_bad_crc_io d p)
      (simp add: ex_bad_crc_def reply_frame_simps ex_bad_crc_fails)
qed

text \<open>
  C2, amended. For a PPM read in which the bus I/O succeeds and the sensor reports ready,
  and with a CRC error code that differs from OK: the cache and its timestamp are updated
  to the decoded value and the current time exactly when the CRC check over the received
  frame passes; when it fails, the cached value is returned and cache and timestamp are
  unchanged. CRC validity is required for the cache update.
\<close>

theorem readPPM_needs_crc:
  assumes "length (buffer s) = 5" "endTransmission_rc r = 0" "requestFrom_n r = 5"
    and "read_byte r 0 AND 0x01 = 0"
    and "AGS3870_ERROR_CRC c \<noteq> AGS3870_OK c"
  shows "fst (readPPM c w r now s)
           = (if priv_CRC8 (rx_frame r) 5 = 0 then fst (priv_readSensor c w r s) else lastPPM s)
       \<and> lastPPM (snd (readPPM c w r now s))
           = (if priv_CRC8 (rx_frame r) 5 = 0 then fst (priv_readSensor c w r s) else lastPPM s)
       \<and> lastRead (snd (readPPM c w r now s))
           = (if priv_CRC8 (rx_frame r) 5 = 0 then now else lastRead s)"
  using assms(4,5)
  by (simp add: readPPM_def priv_readSensor_eq [OF assms(1-3)])

theorem readPPM_needs_crc_witness:
  "length (buffer (snd (readPPM ex_codes 16 ex_good 1000 ex_state))) = 5
   \<and> endTransmission_rc ex_bad_crc = 0 \<and> requestFrom_n ex_bad_crc = 5
   \<and> read_byte ex_bad_crc 0 AND 0x01 = 0
   \<and> AGS3870_ERROR_CRC ex_codes \<noteq> AGS3870_OK ex_codes
   \<and> priv_CRC8 (rx_frame ex_bad_crc) 5 \<noteq> 0
   \<and> fst (readPPM ex_codes 16 ex_good 1000 ex_state) = 5
   \<and> fst (readPPM ex_codes 16 ex_bad_crc 2000 (snd (readPPM ex_codes 16 ex_good 1000 ex_state))) = 5
   \<and> lastPPM (snd (readPPM ex_codes 16 ex_bad_crc 2000
         (snd (readPPM ex_codes 16 ex_good 1000 ex_state)))) = 5
   \<and> lastRead (snd (readPPM ex_codes 16 ex_bad_crc 2000
         (snd (readPPM ex_codes 16 ex_good 1000 ex_state)))) = 1000"
proof -
  let ?s = "snd (readPPM ex_codes 16 ex_good 1000 ex_state)"
  have d: "priv_readSensor ex_codes 16 ex_good ex_state =
      (5, ex_state\<lparr>status := 0, error := AGS3870_OK ex_codes,
            buffer := [0, 0, 0, 5, 0x22], wire := wire_after_read AGS3870_PPM ex_state\<rparr>)"
    by (simp add: priv_readSensor_eq [OF ex_state_wf ex_good_io])
      (simp add: ex_good_def reply_frame_simps ex_good_passes int_mul_0)
  have s: "readPPM ex_codes 16 ex_good 1000 ex_state =
      (5, ex_state\<lparr>lastRead := 1000, lastPPM := 5, status := 0, error := AGS3870_OK ex_codes,
            buffer := [0, 0, 0, 5, 0x22], wire := wire_after_read AGS3870_PPM ex_state\<rparr>)"
    by (simp add: readPPM_def d)
  have h: "length (buffer ?s) = 5" by (simp add: s)
  have h3: "read_byte ex_bad_crc 0 AND 0x01 = 0"
    by (simp add: ex_bad_crc_def reply_frame_simps)
  have h4: "AGS3870_ERROR_CRC ex_codes \<noteq> AGS3870_OK ex_codes" by (simp add: ex_codes_def)
  have crc: "priv_CRC8 (rx_frame ex_bad_crc) 5 \<noteq> 0"
    by (simp add: ex_bad_crc_def reply_frame_simps ex_bad_crc_fails)
  have g: "fst (readPPM ex_codes 16 ex_good 1000 ex_state) = 5" "lastPPM ?s = 5"
    "lastRead ?s = 1000" by (simp_all add: s)
  show ?thesis
    using h ex_bad_crc_io h3 h4 crc g
      readPPM_needs_crc [OF h ex_bad_crc_io h3 h4, where now = 2000]
    by simp
qed

section \<open>Resistance\<close>

lemma readResistance_eq:
  assumes "length (buffer s) = 5" "endTransmission_rc r = 0" "requestFrom_n r = 5"
  shows "readResistance c w r s =
    ((ucast (read_byte r 0) * 65536 + word_of_int (int_mul w (uint (read_byte r 1)) 256)
        + ucast (read_byte r 2)) * 10,
     s\<lparr>error := (if priv_CRC8 (rx_frame r) 5 \<noteq> 0 then AGS3870_ERROR_CRC c
                  else AGS3870_OK c),
        buffer := rx_frame r, wire := wire_after_read AGS3870_RESISTANCE s\<rparr>)"
  using assms
  by (simp add: readResistance_def priv_readRegister_eq Let_def rx_frame_nth)

lemma zero_resistance_reply_simps:
  "endTransmission_rc zero_resistance_reply = 0"
  "requestFrom_n zero_resistance_reply = 5"
  "read_byte zero_resistance_reply 0 = 0"
  "read_byte zero_resistance_reply 1 = 0"
  "read_byte zero_resistance_reply 2 = 0"
  "read_byte zero_resistance_reply (Suc 0) = 0"
  by (simp_all add: zero_resistance_reply_def reply_frame_def)

lemma zero_resistance_reply_crc: "priv_CRC8 (rx_frame zero_resistance_reply) 5 = 0"
  by code_simp

text \<open>
  For a received frame and an \<^verbatim>\<open>int\<close> of any width: byte[3] has no influence on the
  returned value, and a CRC failure is recorded as the error while the value is returned
  all the same.
\<close>

lemma readResistance_error:
  assumes "length (buffer s) = 5" "endTransmission_rc r = 0" "requestFrom_n r = 5"
  shows "fst (readResistance c w (r\<lparr>read_byte := (read_byte r)(3 := x)\<rparr>) s)
           = fst (readResistance c w r s)
       \<and> error (snd (readResistance c w r s))
           = (if priv_CRC8 (rx_frame r) 5 \<noteq> 0 then AGS3870_ERROR_CRC c else AGS3870_OK c)"
proof -
  let ?r' = "r\<lparr>read_byte := (read_byte r)(3 := x)\<rparr>"
  have "endTransmission_rc ?r' = 0" "requestFrom_n ?r' = 5"
    using assms by simp_all
  from readResistance_eq [OF assms(1) this] readResistance_eq [OF assms]
  show ?thesis by simp
qed

text \<open>
  The returned value of a received frame is (byte[0]*65536 + byte[1]*256 + byte[2]) * 10
  when the product byte[1]*256 fits the \<^verbatim>\<open>int\<close>: on a target whose \<^verbatim>\<open>int\<close> has more than
  16 bits, or for byte[1] below 0x80. The raw bytes 0x00, 0x00, 0x05 give 50 on every
  target.
\<close>

lemma readResistance_value:
  assumes "length (buffer s) = 5" "endTransmission_rc r = 0" "requestFrom_n r = 5"
    and "17 \<le> w \<or> (16 \<le> w \<and> uint (read_byte r 1) < 128)"
  shows "unat (fst (readResistance c w r s))
           = (unat (read_byte r 0) * 65536 + unat (read_byte r 1) * 256
                + unat (read_byte r 2)) * 10"
  by (simp only: readResistance_eq [OF assms(1-3)] fst_conv int_mul_byte [OF assms(4)]
      word_of_int_byte_mul be24_times10)

lemma readResistance_scale_example:
  "unat (fst (readResistance ex_codes 16 (reply_frame [0, 0, 5, 0, 0]) ex_state)) = 50"
proof -
  have h1: "endTransmission_rc (reply_frame [0, 0, 5, 0, 0]) = 0"
    and h2: "requestFrom_n (reply_frame [0, 0, 5, 0, 0]) = 5"
    and h3: "17 \<le> (16::nat) \<or> (16 \<le> (16::nat)
               \<and> uint (read_byte (reply_frame [0, 0, 5, 0, 0]) 1) < 128)"
    by (simp_all add: reply_frame_simps)
  show ?thesis
    using readResistance_value [OF ex_state_wf h1 h2 h3, where c = ex_codes]
    by (simp add: reply_frame_simps)
qed

lemma ex_res_high_io:
  "endTransmission_rc ex_res_high = 0" "requestFrom_n ex_res_high = 5"
  by (simp_all add: ex_res_high_def reply_frame_simps)

text \<open>
  C8. Resistance decode, on a target whose \<^verbatim>\<open>int\<close> has 16 bits. The frame 00 80 00 00 02
  is received (close status 0, 5 bytes) with a valid CRC, and
  (byte[0]*65536 + byte[1]*256 + byte[2]) * 10 is 327680. \<^verbatim>\<open>readResistance()\<close> returns
  4294639616 (0xFFFB0000) with error OK: the product \<^verbatim>\<open>_buffer[1] * 256\<close> of line 89
  overflows the \<^verbatim>\<open>int\<close>, unlike the product \<^verbatim>\<open>_buffer[0] * 65536UL\<close> of the line before it.
\<close>

theorem readResistance_int16_overflow:
  "endTransmission_rc ex_res_high = 0 \<and> requestFrom_n ex_res_high = 5
   \<and> priv_CRC8 (rx_frame ex_res_high) 5 = 0
   \<and> (unat (read_byte ex_res_high 0) * 65536 + unat (read_byte ex_res_high 1) * 256
        + unat (read_byte ex_res_high 2)) * 10 = 327680
   \<and> unat (fst (readResistance ex_codes 16 ex_res_high ex_state)) = 4294639616
   \<and> error (snd (readResistance ex_codes 16 ex_res_high ex_state)) = AGS3870_OK ex_codes"
proof -
  have bytes: "read_byte ex_res_high 0 = 0" "read_byte ex_res_high 1 = 0x80"
    "read_byte ex_res_high 2 = 0" "read_byte ex_res_high (Suc 0) = 0x80"
    by (simp_all add: ex_res_high_def reply_frame_simps)
  have crc: "priv_CRC8 (rx_frame ex_res_high) 5 = 0"
    by (simp add: ex_res_high_def reply_frame_simps ex_res_high_passes)
  have v: "fst (readResistance ex_codes 16 ex_res_high ex_state) = 0xFFFB0000"
    by (simp add: readResistance_eq [OF ex_state_wf ex_res_high_io] bytes int_mul_16_high)
  have e: "error (snd (readResistance ex_codes 16 ex_res_high ex_state)) = AGS3870_OK ex_codes"
    by (simp add: readResistance_eq [OF ex_state_wf ex_res_high_io] bytes crc)
  show ?thesis
    by (simp add: ex_res_high_io crc v e) (simp add: bytes)
qed

text \<open>
  C10. When the register read fails (the close returns a status other than 0, or the
  request does not report 5 bytes), \<^verbatim>\<open>readResistance()\<close> returns 0 and the error slot holds
  the transport's status code or the read error. A received, CRC-valid frame with raw
  reading 0 returns the same value 0, with error OK: the two differ in the error slot only.
\<close>

theorem readResistance_failure_zero:
  assumes "length (buffer s) = 5"
    and "endTransmission_rc r \<noteq> 0 \<or> requestFrom_n r \<noteq> 5"
  shows "fst (readResistance c w r s) = 0
       \<and> error (snd (readResistance c w r s))
           = (if endTransmission_rc r \<noteq> 0 then uint (endTransmission_rc r)
              else AGS3870_ERROR_READ c)
       \<and> fst (readResistance c w zero_resistance_reply s) = fst (readResistance c w r s)
       \<and> error (snd (readResistance c w zero_resistance_reply s)) = AGS3870_OK c"
proof -
  have f: "readResistance c w r s =
      (0, s\<lparr>error := (if endTransmission_rc r \<noteq> 0 then uint (endTransmission_rc r)
                          else AGS3870_ERROR_READ c),
               wire := wire_after_read AGS3870_RESISTANCE s\<rparr>)"
    by (simp add: readResistance_def priv_readRegister_fail [OF assms(2)])
  have z: "readResistance c w zero_resistance_reply s =
      (0, s\<lparr>error := AGS3870_OK c, buffer := rx_frame zero_resistance_reply,
            wire := wire_after_read AGS3870_RESISTANCE s\<rparr>)"
    using assms(1)
    by (simp add: readResistance_eq zero_resistance_reply_simps zero_resistance_reply_crc
        int_mul_0)
  show ?thesis by (simp add: f z)
qed

theorem readResistance_failure_zero_witness:
  "length (buffer ex_state) = 5
   \<and> endTransmission_rc (reply_status 2) = 2
   \<and> fst (readResistance ex_codes 16 (reply_status 2) ex_state) = 0
   \<and> error (snd (readResistance ex_codes 16 (reply_status 2) ex_state)) = 2
   \<and> fst (readResistance ex_codes 16 zero_resistance_reply ex_state) = 0
   \<and> error (snd (readResistance ex_codes 16 zero_resistance_reply ex_state)) = 0"
proof -
  have h: "endTransmission_rc (reply_status 2) \<noteq> 0 \<or> requestFrom_n (reply_status 2) \<noteq> 5"
    by (simp add: reply_status_def)
  show ?thesis
    using ex_state_wf h readResistance_failure_zero [OF ex_state_wf h, where c = ex_codes]
    by (simp add: reply_status_def ex_codes_def)
qed

section \<open>Strict decoders\<close>

lemma getZeroCalibrationData_eq:
  assumes "length (buffer s) = 5"
  shows "getZeroCalibrationData c r d s =
    (if endTransmission_rc r \<noteq> 0 \<or> requestFrom_n r \<noteq> 5
     then (False, d, snd (priv_readRegister c r AGS3870_CALIBRATION s))
     else if priv_CRC8 (rx_frame r) 5 \<noteq> 0
     then (False, d, s\<lparr>error := AGS3870_ERROR_CRC c, buffer := rx_frame r,
                         wire := wire_after_read AGS3870_CALIBRATION s\<rparr>)
     else (True,
           d\<lparr>cal_status := push_bit 8 (ucast (read_byte r 0)) + ucast (read_byte r 1),
             cal_value := push_bit 8 (ucast (read_byte r 2)) + ucast (read_byte r 3)\<rparr>,
           s\<lparr>error := AGS3870_OK c, buffer := rx_frame r,
             wire := wire_after_read AGS3870_CALIBRATION s\<rparr>))"
  using assms
  by (simp add: getZeroCalibrationData_def priv_readRegister_eq Let_def rx_frame_nth
      priv_getDataMSB_def priv_getDataLSB_def)

lemma readRegister_eq:
  assumes "length (buffer s) = 5" "length (reg_data g) = 4"
  shows "readRegister c r a g s =
    (if endTransmission_rc r \<noteq> 0 \<or> requestFrom_n r \<noteq> 5
     then (False, g, snd (priv_readRegister c r a s))
     else if priv_CRC8 (rx_frame r) 5 \<noteq> 0
     then (False, g, s\<lparr>error := AGS3870_ERROR_CRC c, buffer := rx_frame r,
                         wire := wire_after_read a s\<rparr>)
     else (True,
           g\<lparr>reg_data := [read_byte r 0, read_byte r 1, read_byte r 2, read_byte r 3],
             reg_crc := read_byte r 4, reg_crcValid := True\<rparr>,
           s\<lparr>error := AGS3870_OK c, buffer := rx_frame r, wire := wire_after_read a s\<rparr>))"
  using assms
  by (simp add: readRegister_def priv_readRegister_eq Let_def rx_frame_nth update4)

text \<open>
  C4. Strict decoders. \<^verbatim>\<open>getZeroCalibrationData\<close> and \<^verbatim>\<open>readRegister\<close> return true exactly
  when the 5-byte read succeeds and the CRC over the 5 received bytes is 0. In every other
  case the caller's record is returned as it was passed in. On success the calibration
  record holds the two big-endian 16-bit halves of bytes [0:1] and [2:3], and the register
  record holds the four data bytes, the CRC byte and the validity flag.
\<close>

theorem strict_decoders_atomic:
  assumes "length (buffer s) = 5" "length (reg_data g) = 4"
  shows "(let ok = (endTransmission_rc r = 0 \<and> requestFrom_n r = 5
                     \<and> priv_CRC8 (rx_frame r) 5 = 0);
              (b1, d', s1) = getZeroCalibrationData c r d s;
              (b2, g', s2) = readRegister c r a g s
          in b1 = ok \<and> b2 = ok \<and>
             (if ok
              then unat (cal_status d') = unat (read_byte r 0) * 256 + unat (read_byte r 1)
                 \<and> unat (cal_value d') = unat (read_byte r 2) * 256 + unat (read_byte r 3)
                 \<and> g' = g\<lparr>reg_data := [read_byte r 0, read_byte r 1, read_byte r 2,
                                          read_byte r 3],
                           reg_crc := read_byte r 4, reg_crcValid := True\<rparr>
              else d' = d \<and> g' = g))"
  by (simp add: getZeroCalibrationData_eq [OF assms(1)] readRegister_eq [OF assms] be16)

text \<open>
  The frame with the corrupted CRC byte leaves both records as they were; the frame with
  the right CRC byte fills them.
\<close>

theorem strict_decoders_atomic_witness:
  "length (buffer ex_state) = 5 \<and> length (reg_data ex_reg) = 4
   \<and> priv_CRC8 (rx_frame ex_bad_crc) 5 \<noteq> 0
   \<and> \<not> fst (getZeroCalibrationData ex_codes ex_bad_crc ex_cal ex_state)
   \<and> fst (snd (getZeroCalibrationData ex_codes ex_bad_crc ex_cal ex_state)) = ex_cal
   \<and> \<not> fst (readRegister ex_codes ex_bad_crc AGS3870_CALIBRATION ex_reg ex_state)
   \<and> fst (snd (readRegister ex_codes ex_bad_crc AGS3870_CALIBRATION ex_reg ex_state)) = ex_reg
   \<and> fst (getZeroCalibrationData ex_codes ex_good ex_cal ex_state)
   \<and> unat (cal_status (fst (snd (getZeroCalibrationData ex_codes ex_good ex_cal ex_state)))) = 0
   \<and> unat (cal_value (fst (snd (getZeroCalibrationData ex_codes ex_good ex_cal ex_state)))) = 5
   \<and> fst (readRegister ex_codes ex_good AGS3870_CALIBRATION ex_reg ex_state)
   \<and> fst (snd (readRegister ex_codes ex_good AGS3870_CALIBRATION ex_reg ex_state))
       = \<lparr>reg_data = [0, 0, 0, 5], reg_crc = 0x22, reg_crcValid = True\<rparr>"
proof -
  have h: "length (reg_data ex_reg) = 4" by (simp add: ex_reg_def)
  have crc: "priv_CRC8 (rx_frame ex_bad_crc) 5 \<noteq> 0"
    by (simp add: ex_bad_crc_def reply_frame_simps ex_bad_crc_fails)
  have ok: "priv_CRC8 (rx_frame ex_good) 5 = 0"
    by (simp add: ex_good_def reply_frame_simps ex_good_passes)
  have bytes: "read_byte ex_good 0 = 0" "read_byte ex_good 1 = 0" "read_byte ex_good 2 = 0"
    "read_byte ex_good 3 = 5" "read_byte ex_good 4 = 0x22" "read_byte ex_good (Suc 0) = 0"
    by (simp_all add: ex_good_def reply_frame_simps)
  have bad: "\<not> fst (getZeroCalibrationData ex_codes ex_bad_crc ex_cal ex_state)
      \<and> fst (snd (getZeroCalibrationData ex_codes ex_bad_crc ex_cal ex_state)) = ex_cal
      \<and> \<not> fst (readRegister ex_codes ex_bad_crc AGS3870_CALIBRATION ex_reg ex_state)
      \<and> fst (snd (readRegister ex_codes ex_bad_crc AGS3870_CALIBRATION ex_reg ex_state)) = ex_reg"
    using crc
      strict_decoders_atomic [OF ex_state_wf h, where r = ex_bad_crc and c = ex_codes
        and d = ex_cal and a = AGS3870_CALIBRATION]
    by (simp add: Let_def split: prod.splits)
  have good: "fst (getZeroCalibrationData ex_codes ex_good ex_cal ex_state)
      \<and> unat (cal_status (fst (snd (getZeroCalibrationData ex_codes ex_good ex_cal ex_state)))) = 0
      \<and> unat (cal_value (fst (snd (getZeroCalibrationData ex_codes ex_good ex_cal ex_state)))) = 5
      \<and> fst (readRegister ex_codes ex_good AGS3870_CALIBRATION ex_reg ex_state)
      \<and> fst (snd (readRegister ex_codes ex_good AGS3870_CALIBRATION ex_reg ex_state))
          = \<lparr>reg_data = [0, 0, 0, 5], reg_crc = 0x22, reg_crcValid = True\<rparr>"
    using ok ex_good_io
      strict_decoders_atomic [OF ex_state_wf h, where r = ex_good and c = ex_codes
        and d = ex_cal and a = AGS3870_CALIBRATION]
    by (simp add: Let_def bytes ex_reg_def split: prod.splits)
  from ex_state_wf h crc bad good show ?thesis by blast
qed

section \<open>Manual zero calibration\<close>

lemma manualZeroCalibration_eq:
  assumes "length (buffer s) = 5"
  shows "manualZeroCalibration r v s =
    (endTransmission_rc r = 0,
     s\<lparr>error := uint (endTransmission_rc r),
        buffer := [0, 0, ucast (drop_bit 8 v), ucast (v AND 0x00FF),
                   priv_CRC8 [0, 0, ucast (drop_bit 8 v), ucast (v AND 0x00FF)] 4],
        wire := (wire s)\<lparr>txAddress := address s,
                  txBuffer := [AGS3870_CALIBRATION, 0, 0, ucast (drop_bit 8 v),
                     ucast (v AND 0x00FF),
                     priv_CRC8 [0, 0, ucast (drop_bit 8 v), ucast (v AND 0x00FF)] 4],
                  transmitted := transmitted (wire s) @
                    [(address s, [AGS3870_CALIBRATION, 0, 0, ucast (drop_bit 8 v),
                       ucast (v AND 0x00FF),
                       priv_CRC8 [0, 0, ucast (drop_bit 8 v), ucast (v AND 0x00FF)] 4])]\<rparr>\<rparr>)"
proof -
  from assms obtain a b c d e where buf: "buffer s = [a, b, c, d, e]"
    by (auto simp: length_Suc_conv eval_nat_numeral)
  show ?thesis
    by (simp add: manualZeroCalibration_def priv_writeRegister_def beginTransmission_def
        wire_write_def endTransmission_def Let_def buf priv_CRC8_5_4 upt_rec uint_0_iff
        del: drop_bit_word_numeral)
qed

text \<open>
  C9. \<^verbatim>\<open>manualZeroCalibration(value)\<close> leaves in the buffer the frame 0x00, 0x00, high byte
  of value, low byte of value, CRC-8 over those four bytes; it closes one transmission to
  the driver's address that carries the calibration register address followed by that
  frame; it records the transport's status code and returns true exactly when that code
  is 0.
\<close>

theorem manualZeroCalibration_frame:
  assumes "length (buffer s) = 5"
  shows "(let hi = ucast (drop_bit 8 v) :: uint8_t;
              lo = ucast (v AND 0x00FF) :: uint8_t;
              frame = [0, 0, hi, lo, priv_CRC8 [0, 0, hi, lo] 4];
              (ok, s') = manualZeroCalibration r v s
          in unat hi = unat v div 256 \<and> unat lo = unat v mod 256
             \<and> buffer s' = frame
             \<and> transmitted (wire s')
                 = transmitted (wire s) @ [(address s, AGS3870_CALIBRATION # frame)]
             \<and> error s' = uint (endTransmission_rc r)
             \<and> ok = (endTransmission_rc r = 0))"
  by (simp only: manualZeroCalibration_eq [OF assms] Let_def hi_byte lo_byte) simp

theorem manualZeroCalibration_frame_witness:
  "length (buffer ex_state) = 5
   \<and> fst (manualZeroCalibration (reply_status 0) 0x1234 ex_state)
   \<and> buffer (snd (manualZeroCalibration (reply_status 0) 0x1234 ex_state))
       = [0x00, 0x00, 0x12, 0x34, priv_CRC8 [0x00, 0x00, 0x12, 0x34] 4]
   \<and> transmitted (wire (snd (manualZeroCalibration (reply_status 0) 0x1234 ex_state)))
       = [(26, [0x01, 0x00, 0x00, 0x12, 0x34, 0x61])]"
  using ex_state_wf manualZeroCalibration_frame [OF ex_state_wf, where r = "reply_status 0"
      and v = "0x1234"]
  by (simp add: Let_def reply_status_def crc_1234 AGS3870_CALIBRATION_def split: prod.splits)
    (simp add: ex_state_def)

end
